theory Spec2Isabelle
  imports Main "HOL-Library.Sublist" "HOL-Library.Word"
begin

section \<open>Python values, exceptions and the trace of external calls\<close>

text \<open>
  The script \<^verbatim>\<open>DOIcorrection.py\<close> is a sequence of calls to the database, the file
  system and two HTTP services. Each function is embedded as a HOL function that takes the
  answers of the outside world as parameters (\<open>env\<close>, \<open>engine\<close>) and returns its Python
  result together with the list of external calls that completed, in order. A Python
  exception is the left summand of the result. Only subclasses of \<^verbatim>\<open>Exception\<close> are
  modelled, so \<^verbatim>\<open>except Exception\<close> catches every modelled exception.
\<close>

datatype pyexc =
    TypeError string
  | KeyError string
  | FileNotFoundError string
  | OtherException string string

text \<open>\<^verbatim>\<open>str(e)\<close>: the message; a \<^verbatim>\<open>KeyError\<close> prints the repr of its key.\<close>

definition squote :: "string \<Rightarrow> string" where
  "squote s = [CHR 0x27] @ s @ [CHR 0x27]"

fun exc_str :: "pyexc \<Rightarrow> string" where
  "exc_str (TypeError m) = m"
| "exc_str (KeyError k) = squote k"
| "exc_str (FileNotFoundError m) = m"
| "exc_str (OtherException c m) = m"

text \<open>
  The values a caller passes as \<^verbatim>\<open>pubID\<close>: an integer (what the Scanner appends to
  \<^verbatim>\<open>pubIDs\<close>), a string, or a list of integers (the accumulator itself).
\<close>

datatype pyval = PInt int | PStr string | PList "int list"

definition digit_chars :: string where
  "digit_chars = ''0123456789''"

fun str_nat :: "nat \<Rightarrow> string" where
  "str_nat n = (if n < 10 then [digit_chars ! n] else str_nat (n div 10) @ [digit_chars ! (n mod 10)])"

declare str_nat.simps [simp del]

definition str_int :: "int \<Rightarrow> string" where
  "str_int i = (if i < 0 then ''-'' @ str_nat (nat (- i)) else str_nat (nat i))"

fun join_comma :: "string list \<Rightarrow> string" where
  "join_comma [] = []"
| "join_comma [s] = s"
| "join_comma (s # t # ss) = s @ '', '' @ join_comma (t # ss)"

text \<open>
  \<^verbatim>\<open>str(v)\<close>, which is also what \<^verbatim>\<open>'%s' % (v)\<close> and an f-string field produce for
  these values (\<^verbatim>\<open>(v)\<close> is not a tuple).
\<close>

fun pystr :: "pyval \<Rightarrow> string" where
  "pystr (PInt i) = str_int i"
| "pystr (PStr s) = s"
| "pystr (PList xs) = ''['' @ join_comma (map str_int xs) @ '']''"

text \<open>\<^verbatim>\<open>len(v)\<close>: an integer has no length.\<close>

fun py_len :: "pyval \<Rightarrow> pyexc + nat" where
  "py_len (PInt i) = Inl (TypeError ''object of type 'int' has no len()'')"
| "py_len (PStr s) = Inr (length s)"
| "py_len (PList xs) = Inr (length xs)"

subsection \<open>String methods\<close>

text \<open>
  A \<open>char\<close> stands for one code point below 256. \<^verbatim>\<open>str.isspace\<close> on that range.
\<close>

definition isspace :: "char \<Rightarrow> bool" where
  "isspace c = (of_char c \<in> set [9, 10, 11, 12, 13, 28, 29, 30, 31, 32, 133, 160 :: nat])"

definition strip :: "string \<Rightarrow> string" where
  "strip s = rev (dropWhile isspace (rev (dropWhile isspace s)))"

text \<open>
  \<open>find_at sub s i\<close> scans the text \<open>s\<close>, whose first character has index \<open>i\<close>, for
  the lowest index where \<open>sub\<close> starts; \<open>-1\<close> when there is none.
\<close>

primrec find_at :: "string \<Rightarrow> string \<Rightarrow> nat \<Rightarrow> int" where
  "find_at sub [] i = (if sub = [] then int i else - 1)"
| "find_at sub (c # cs) i = (if prefix sub (c # cs) then int i else find_at sub cs (Suc i))"

text \<open>\<^verbatim>\<open>s.find(sub, start)\<close>: a negative start counts from the end and is clipped at 0.\<close>

definition find :: "string \<Rightarrow> string \<Rightarrow> int \<Rightarrow> int" where
  "find s sub start =
     (let n = int (length s);
          st = (if start < 0 then max 0 (start + n) else start)
      in if st > n then - 1 else find_at sub (drop (nat st) s) (nat st))"

text \<open>\<^verbatim>\<open>s[a:b]\<close>: negative bounds count from the end, both are clipped to the text.\<close>

definition slice :: "string \<Rightarrow> int \<Rightarrow> int \<Rightarrow> string" where
  "slice s a b =
     (let n = int (length s);
          a' = (if a < 0 then max 0 (a + n) else min a n);
          b' = (if b < 0 then max 0 (b + n) else min b n)
      in take (nat (b' - a')) (drop (nat a') s))"

subsection \<open>JSON values, HTTP responses, XML elements\<close>

text \<open>A decoded JSON document; an object is its key-value pairs with distinct keys.\<close>

datatype json =
    JNull
  | JBool bool
  | JInt int
  | JStr string
  | JArr "json list"
  | JObj "(string \<times> json) list"

text \<open>\<^verbatim>\<open>j[k]\<close> with a string key: only a dict can be subscripted by a string.\<close>

fun subscript :: "json \<Rightarrow> string \<Rightarrow> pyexc + json" where
  "subscript (JObj kvs) k = (case map_of kvs k of None \<Rightarrow> Inl (KeyError k) | Some v \<Rightarrow> Inr v)"
| "subscript (JArr xs) k = Inl (TypeError ''list indices must be integers or slices, not str'')"
| "subscript (JStr s) k = Inl (TypeError (''string indices must be integers, not '' @ squote ''str''))"
| "subscript JNull k = Inl (TypeError (squote ''NoneType'' @ '' object is not subscriptable''))"
| "subscript (JBool b) k = Inl (TypeError (squote ''bool'' @ '' object is not subscriptable''))"
| "subscript (JInt i) k = Inl (TypeError (squote ''int'' @ '' object is not subscriptable''))"

text \<open>
  A \<^verbatim>\<open>requests\<close> response: the status, the body text, and what \<^verbatim>\<open>response.json()\<close>
  gives (the decoded body, or the decoder's exception).
\<close>

record response =
  status_code :: int
  resp_text :: string
  resp_json :: "pyexc + json"

text \<open>An \<^verbatim>\<open>ElementTree\<close> element: its tag, its attributes in order, and the rest.\<close>

record element =
  tag :: string
  attrib :: "(string \<times> string) list"
  content :: string

text \<open>\<^verbatim>\<open>root.set(k, v)\<close>: replaces the value of an existing key, else appends the pair.\<close>

fun attrib_set :: "(string \<times> string) list \<Rightarrow> string \<Rightarrow> string \<Rightarrow> (string \<times> string) list" where
  "attrib_set [] k v = [(k, v)]"
| "attrib_set ((k', v') # kvs) k v = (if k' = k then (k, v) # kvs else (k', v') # attrib_set kvs k v)"

definition element_set :: "element \<Rightarrow> string \<Rightarrow> string \<Rightarrow> element" where
  "element_set root k v = root\<lparr>attrib := attrib_set (attrib root) k v\<rparr>"

type_synonym byte = "8 word"

text \<open>The external calls a run makes; the trace lists those that returned normally.\<close>

datatype action =
    Print string
  | FileRead string
  | FileWrite string element
  | HttpGet string
  | HttpPost string "(string \<times> string) list" json
  | SqlConnect
  | SqlQuery string
  | SqlExecute string "(string \<times> pyval) list"

section \<open>The outside world\<close>

text \<open>
  What the libraries answer, taken as parameters: the two \<^verbatim>\<open>os.path\<close> functions, the
  random UUID, the file system (\<^verbatim>\<open>open(path, 'rb').read()\<close>), the two HTTP calls, the
  XML parser and writer, \<^verbatim>\<open>str\<close> of a decoded JSON value that is not a string, and the
  opaque credential of the registration request. A writer that raises leaves no file.
\<close>

record env =
  normpath :: "string \<Rightarrow> string"
  path_join :: "string \<Rightarrow> string \<Rightarrow> string"
  uuid4 :: string
  open_rb :: "string \<Rightarrow> pyexc + byte list"
  requests_get :: "string \<Rightarrow> pyexc + response"
  requests_post :: "string \<Rightarrow> (string \<times> string) list \<Rightarrow> json \<Rightarrow> pyexc + response"
  fromstring :: "string option \<Rightarrow> pyexc + element"
  tree_write :: "string \<Rightarrow> element \<Rightarrow> pyexc option"
  repr_json :: "json \<Rightarrow> string"
  credential :: string

text \<open>
  The tables, with the columns the Scanner's query reads. \<open>PUBLISHED\<close> is a nullable
  bit, \<open>DOI_PUBLICATION_DATE\<close> a nullable date, \<open>PUBLICATION_ID\<close> a nullable foreign key.
\<close>

record publication =
  ID :: int
  PUBLISHED :: "int option"
  DOI_PUBLICATION_DATE :: "string option"

record dataset =
  PUBLICATION_ID :: "int option"

record database =
  PUBLICATION :: "publication list"
  DATASET :: "dataset list"

text \<open>
  The SQLAlchemy engine: whether connecting raises, the tables, the rows the server
  returns for the exporter's query text (the column \<^verbatim>\<open>DataCiteXML\<close>, \<open>None\<close> for NULL),
  and for an update statement with its bound parameters the exception or the row count.
  A statement that raises changes no row.
\<close>

record engine =
  connect_error :: "pyexc option"
  tables :: database
  select_xml :: "string \<Rightarrow> pyexc + string option list"
  execute_update :: "string \<Rightarrow> (string \<times> pyval) list \<Rightarrow> pyexc + int"

section \<open>1. dois\_required\_check\<close>

definition query_string :: string where
  "query_string =
     ''SELECT pub.ID as 'PubID'\<newline>'' @
     ''    FROM [dbo].[PUBLICATION] pub\<newline>'' @
     ''    Right Join [dbo].[DATASET] ds on ds.PUBLICATION_ID = pub.ID\<newline>'' @
     ''    WHERE pub.PUBLISHED = 1 \<newline>'' @
     ''    AND pub.DOI_PUBLICATION_DATE is null\<newline>'' @
     ''    AND pub.ID != 12551\<newline>'' @
     ''    ''"

text \<open>
  The right join keeps every \<^verbatim>\<open>DATASET\<close> row: paired with each \<^verbatim>\<open>PUBLICATION\<close> row
  whose \<open>ID\<close> equals its \<open>PUBLICATION_ID\<close>, or with NULLs when there is none.
\<close>

definition right_join :: "database \<Rightarrow> (publication option \<times> dataset) list" where
  "right_join d =
     concat (map (\<lambda>ds.
       (case filter (\<lambda>pub. PUBLICATION_ID ds = Some (ID pub)) (PUBLICATION d) of
          [] \<Rightarrow> [(None, ds)]
        | ms \<Rightarrow> map (\<lambda>pub. (Some pub, ds)) ms)) (DATASET d))"

text \<open>The \<^verbatim>\<open>WHERE\<close> clause; a comparison with NULL is not true.\<close>

fun where_clause :: "publication option \<times> dataset \<Rightarrow> bool" where
  "where_clause (None, ds) = False"
| "where_clause (Some pub, ds) =
     (PUBLISHED pub = Some 1 \<and> DOI_PUBLICATION_DATE pub = None \<and> ID pub \<noteq> 12551)"

fun select_PubID :: "publication option \<times> dataset \<Rightarrow> int list" where
  "select_PubID (None, ds) = []"
| "select_PubID (Some pub, ds) = [ID pub]"

definition doi_check_query :: "database \<Rightarrow> int list" where
  "doi_check_query d = concat (map select_PubID (filter where_clause (right_join d)))"

text \<open>\<^verbatim>\<open>pd.read_sql_query(query_string, engine)\<close>: the column \<^verbatim>\<open>PubID\<close> of the frame.\<close>

definition read_sql_query :: "engine \<Rightarrow> pyexc + int list" where
  "read_sql_query engine =
     (case connect_error engine of
        Some e \<Rightarrow> Inl e
      | None \<Rightarrow> Inr (doi_check_query (tables engine)))"

text \<open>
  The global list \<^verbatim>\<open>pubIDs\<close> is passed in and returned. The loop appends row \<open>i\<close> for
  \<open>i\<close> in \<^verbatim>\<open>range(0, len(df))\<close>.
\<close>

definition dois_required_check :: "engine \<Rightarrow> int list \<Rightarrow> int list \<times> action list" where
  "dois_required_check engine pubIDs =
     (case read_sql_query engine of
        Inl e \<Rightarrow> (pubIDs, [Print (''An error occurred: '' @ exc_str e)])
      | Inr df \<Rightarrow>
          (foldl (\<lambda>acc i. acc @ [df ! i]) pubIDs [0..<length df],
           [SqlQuery query_string, Print ''query for doi check finished'']))"

section \<open>2. createXML\<close>

text \<open>The body of \<^verbatim>\<open>for row in result\<close>; it stops at the first exception.\<close>

fun createXML_rows :: "env \<Rightarrow> pyval \<Rightarrow> string \<Rightarrow> string option list \<Rightarrow> pyexc option \<times> action list" where
  "createXML_rows env pubID destination_folder [] = (None, [])"
| "createXML_rows env pubID destination_folder (xml_data # result) =
     (case fromstring env xml_data of
        Inl e \<Rightarrow> (Some e, [])
      | Inr root0 \<Rightarrow>
          (let root1 = element_set root0 ''xmlns:xsi'' ''http://www.w3.org/2001/XMLSchema-instance'';
               root2 = element_set root1 ''xmlns'' ''http://datacite.org/schema/kernel-4'';
               root = element_set root2 ''xsi:schemaLocation''
                 ''http://datacite.org/schema/kernel-4 http://schema.datacite.org/meta/kernel-4.1/metadata.xsd'';
               xml_file_path = path_join env (normpath env destination_folder) (''DC'' @ pystr pubID @ ''.xml'');
               xml_path = normpath env xml_file_path
           in (case tree_write env xml_path root of
                 Some e \<Rightarrow> (Some e, [])
               | None \<Rightarrow>
                   (case createXML_rows env pubID destination_folder result of
                      (r, tr) \<Rightarrow>
                        (r, [FileWrite xml_path root,
                             Print (''XML for '' @ pystr pubID @ '' was created and stored in xml_path'')] @ tr)))))"

text \<open>
  The result is \<^verbatim>\<open>None\<close> (here \<open>()\<close>) or the exception that leaves the function. The
  test \<^verbatim>\<open>len(pubID) <= 0\<close> and the formatting of the query stand before the \<^verbatim>\<open>try\<close>.
\<close>

definition createXML :: "env \<Rightarrow> engine \<Rightarrow> pyval \<Rightarrow> string \<Rightarrow> (pyexc + unit) \<times> action list" where
  "createXML env engine pubID destination_folder =
     (case py_len pubID of
        Inl e \<Rightarrow> (Inl e, [])
      | Inr n \<Rightarrow>
          if n \<le> 0 then (Inr (), [Print ''All published files have DOIs\<newline>\<newline>''])
          else
            (let query = ''\<newline>        SELECT dbo.DataciteXmlById('' @ pystr pubID @
                         '') AS DataCiteXML\<newline>        ''
             in (case connect_error engine of
                   Some e \<Rightarrow> (Inr (), [Print (''An error occurred: '' @ exc_str e)])
                 | None \<Rightarrow>
                     (case select_xml engine query of
                        Inl e \<Rightarrow> (Inr (), [SqlConnect, Print (''An error occurred: '' @ exc_str e)])
                      | Inr result \<Rightarrow>
                          (case createXML_rows env pubID destination_folder result of
                             (Some e, tr) \<Rightarrow>
                               (Inr (), [SqlConnect, SqlQuery query] @ tr @
                                        [Print (''An error occurred: '' @ exc_str e)])
                           | (None, tr) \<Rightarrow> (Inr (), [SqlConnect, SqlQuery query] @ tr))))))"

section \<open>3.1 getDOIstring\<close>

definition getDOIstring :: "env \<Rightarrow> string" where
  "getDOIstring env = ''10.20393/'' @ uuid4 env"

section \<open>3.2 encode\_xml\_to\_base64\<close>

text \<open>
  \<^verbatim>\<open>base64.b64encode\<close> (RFC 4648): three bytes become four characters of the alphabet,
  a last group of one or two bytes is padded with \<^verbatim>\<open>=\<close>. Its result is ASCII, so
  \<^verbatim>\<open>.decode('utf-8')\<close> gives the same characters as text.
\<close>

definition b64_alphabet :: string where
  "b64_alphabet = ''ABCDEFGHIJKLMNOPQRSTUVWXYZabcdefghijklmnopqrstuvwxyz0123456789+/''"

definition b64_char :: "nat \<Rightarrow> char" where
  "b64_char i = b64_alphabet ! i"

fun b64encode :: "byte list \<Rightarrow> string" where
  "b64encode [] = []"
| "b64encode [a] =
     [b64_char (unat a div 4), b64_char ((unat a mod 4) * 16), CHR ''='', CHR ''='']"
| "b64encode [a, b] =
     [b64_char (unat a div 4), b64_char ((unat a mod 4) * 16 + unat b div 16),
      b64_char ((unat b mod 16) * 4), CHR ''='']"
| "b64encode (a # b # c # rest) =
     [b64_char (unat a div 4), b64_char ((unat a mod 4) * 16 + unat b div 16),
      b64_char ((unat b mod 16) * 4 + unat c div 64), b64_char (unat c mod 64)] @ b64encode rest"

text \<open>
  \<^verbatim>\<open>base64.b64decode\<close> on groups of four characters, padding only in the last group.
  Any other shape raises \<^verbatim>\<open>binascii.Error\<close> here; CPython's default mode would skip
  characters outside the alphabet, which the encoder never produces.
\<close>

primrec index_of :: "'a \<Rightarrow> 'a list \<Rightarrow> nat option" where
  "index_of x [] = None"
| "index_of x (y # ys) = (if x = y then Some 0 else map_option Suc (index_of x ys))"

definition b64_value :: "char \<Rightarrow> nat option" where
  "b64_value c = index_of c b64_alphabet"

definition binascii_Error :: pyexc where
  "binascii_Error = OtherException ''binascii.Error'' ''Incorrect padding''"

fun b64decode :: "string \<Rightarrow> pyexc + byte list" where
  "b64decode [] = Inr []"
| "b64decode (c0 # c1 # c2 # c3 # rest) =
     (case (b64_value c0, b64_value c1) of
        (Some s0, Some s1) \<Rightarrow>
          if c2 = CHR ''='' \<and> c3 = CHR ''='' \<and> rest = [] then Inr [of_nat (s0 * 4 + s1 div 16)]
          else
            (case b64_value c2 of
               None \<Rightarrow> Inl binascii_Error
             | Some s2 \<Rightarrow>
                 if c3 = CHR ''='' \<and> rest = []
                 then Inr [of_nat (s0 * 4 + s1 div 16), of_nat ((s1 mod 16) * 16 + s2 div 4)]
                 else
                   (case b64_value c3 of
                      None \<Rightarrow> Inl binascii_Error
                    | Some s3 \<Rightarrow>
                        (case b64decode rest of
                           Inl e \<Rightarrow> Inl e
                         | Inr bs \<Rightarrow>
                             Inr (of_nat (s0 * 4 + s1 div 16) # of_nat ((s1 mod 16) * 16 + s2 div 4) #
                                  of_nat ((s2 mod 4) * 64 + s3) # bs))))
      | _ \<Rightarrow> Inl binascii_Error)"
| "b64decode _ = Inl binascii_Error"

text \<open>
  The Encoder returns the text, or \<^verbatim>\<open>None\<close> when the file is missing; any other
  exception of \<^verbatim>\<open>open\<close> leaves the function.
\<close>

definition encode_xml_to_base64 :: "env \<Rightarrow> string \<Rightarrow> pyval \<Rightarrow> (pyexc + string option) \<times> action list" where
  "encode_xml_to_base64 env destination_folder pubID =
     (let xml_file_path = path_join env (normpath env destination_folder) (''DC'' @ pystr pubID @ ''.xml'')
      in (case open_rb env xml_file_path of
            Inl (FileNotFoundError m) \<Rightarrow> (Inr None, [])
          | Inl e \<Rightarrow> (Inl e, [])
          | Inr xml_content \<Rightarrow> (Inr (Some (b64encode xml_content)), [FileRead xml_file_path])))"

text \<open>
  A Python call of \<^verbatim>\<open>encode_xml_to_base64\<close> with positional arguments: the interpreter
  binds them to the two parameters before the body runs and raises \<^verbatim>\<open>TypeError\<close> when
  their number is not two. \<^verbatim>\<open>os.path.normpath\<close> accepts a string only.
\<close>

fun call_encode_xml_to_base64 :: "env \<Rightarrow> pyval list \<Rightarrow> (pyexc + string option) \<times> action list" where
  "call_encode_xml_to_base64 env [] =
     (Inl (TypeError (''encode_xml_to_base64() missing 2 required positional arguments: '' @
        squote ''destination_folder'' @ '' and '' @ squote ''pubID'')), [])"
| "call_encode_xml_to_base64 env [a] =
     (Inl (TypeError (''encode_xml_to_base64() missing 1 required positional argument: '' @
        squote ''pubID'')), [])"
| "call_encode_xml_to_base64 env [PStr destination_folder, pubID] =
     encode_xml_to_base64 env destination_folder pubID"
| "call_encode_xml_to_base64 env [a, pubID] =
     (Inl (TypeError ''expected str, bytes or os.PathLike object''), [])"
| "call_encode_xml_to_base64 env (a # b # c # others) =
     (Inl (TypeError (''encode_xml_to_base64() takes 2 positional arguments but '' @
        str_nat (length others + 3) @ '' were given'')), [])"

section \<open>3.3 get\_short\_doi\<close>

text \<open>The three shapes of the Resolver's result: a text, \<^verbatim>\<open>None\<close>, or a pair.\<close>

datatype alias_result = AliasStr string | AliasNone | AliasTuple int string

text \<open>An f-string field with a decoded JSON value: a string stands for itself.\<close>

definition format_json :: "env \<Rightarrow> json \<Rightarrow> string" where
  "format_json env j = (case j of JStr s \<Rightarrow> s | _ \<Rightarrow> repr_json env j)"

definition get_short_doi :: "env \<Rightarrow> json \<Rightarrow> (pyexc + alias_result) \<times> action list" where
  "get_short_doi env doi =
     (let short_doi_url = ''http://shortdoi.org/'' @ format_json env doi
      in (case requests_get env short_doi_url of
            Inl e \<Rightarrow> (Inl e, [])
          | Inr response \<Rightarrow>
              (if status_code response = 200 then
                 (let short_doi = strip (resp_text response);
                      start_index = find short_doi ''<div class=\"para\">10/'' 0;
                      end_index = find short_doi ''</div>'' start_index
                  in if start_index \<noteq> - 1 \<and> end_index \<noteq> - 1
                     then Inr (AliasStr (strip (slice short_doi
                            (start_index + int (length ''<div class=\"para\">'')) end_index)))
                     else Inr AliasNone)
               else Inr (AliasTuple (status_code response) (resp_text response)),
               [HttpGet short_doi_url])))"

section \<open>3. createDataciteDOI\<close>

definition update_publication :: string where
  "update_publication =
     ''UPDATE [dbo].[PUBLICATION] SET doi = :new_value1, DOI_PUBLICATION_DATE = :new_value2, '' @
     ''shortDOI = :new_value3 WHERE id = :target_id; = :new_value1, column2 = :new_value2 '' @
     ''WHERE id = :target_id''"

definition update_dataset :: string where
  "update_dataset = ''UPDATE [dbo].[DATASET] SET uuid = :new_value4 WHERE PUBLICATION_ID = :target_id2''"

text \<open>
  \<^verbatim>\<open>connection.execute(...) % (doiDC, date.today(), shortDOI, pubID)\<close>: the operator
  \<^verbatim>\<open>%\<close> is applied to the result object of the statement, which has none, so it
  raises \<^verbatim>\<open>TypeError\<close> whatever the operands are.
\<close>

definition result_mod :: "int \<Rightarrow> pyexc + int" where
  "result_mod result =
     Inl (TypeError (''unsupported operand type(s) for %: '' @ squote ''CursorResult'' @
                     '' and '' @ squote ''tuple''))"

text \<open>
  The body of the \<^verbatim>\<open>try\<close> (lines 221 to 232). The keyword arguments of the two
  \<^verbatim>\<open>execute\<close> calls are the bound parameters: the literal text \<^verbatim>\<open>%s\<close> for every
  \<^verbatim>\<open>new_value\<close> and for \<^verbatim>\<open>target_id\<close>, and \<^verbatim>\<open>pubID\<close> for \<^verbatim>\<open>target_id2\<close>. A result
  stands for its \<^verbatim>\<open>rowcount\<close>.
\<close>

definition publication_params :: "(string \<times> pyval) list" where
  "publication_params =
     [(''new_value1'', PStr ''%s''), (''new_value2'', PStr ''%s''),
      (''new_value3'', PStr ''%s''), (''target_id'', PStr ''%s'')]"

definition dataset_params :: "pyval \<Rightarrow> (string \<times> pyval) list" where
  "dataset_params pubID = [(''new_value4'', PStr ''%s''), (''target_id2'', pubID)]"

definition createDataciteDOI_try :: "env \<Rightarrow> engine \<Rightarrow> pyval \<Rightarrow> json \<Rightarrow> (pyexc + string) \<times> action list" where
  "createDataciteDOI_try env engine pubID doiDC =
     (case get_short_doi env doiDC of
        (Inl e, tr) \<Rightarrow> (Inl e, tr)
      | (Inr shortDOI, tr) \<Rightarrow>
          (case connect_error engine of
             Some e \<Rightarrow> (Inl e, tr)
           | None \<Rightarrow>
               (let params1 = publication_params;
                    params2 = dataset_params pubID
                in (case execute_update engine update_publication params1 of
                      Inl e \<Rightarrow> (Inl e, tr @ [SqlConnect])
                    | Inr rows1 \<Rightarrow>
                        (case result_mod rows1 of
                           Inl e \<Rightarrow> (Inl e, tr @ [SqlConnect, SqlExecute update_publication params1])
                         | Inr result1 \<Rightarrow>
                             (case execute_update engine update_dataset params2 of
                                Inl e \<Rightarrow>
                                  (Inl e, tr @ [SqlConnect, SqlExecute update_publication params1])
                              | Inr result2 \<Rightarrow>
                                  (Inr (''Publication Table Rows affected: '' @ str_int result1 @
                                        '', Dataset Table rows affected: '' @ str_int result2),
                                   tr @ [SqlConnect, SqlExecute update_publication params1,
                                         SqlExecute update_dataset params2])))))))"

text \<open>
  What the function does with the response of the registration request (lines 217 to
  238). The decoding of the body and the three subscripts stand before the \<^verbatim>\<open>try\<close>.
\<close>

definition createDataciteDOI_response :: "env \<Rightarrow> engine \<Rightarrow> pyval \<Rightarrow> response \<Rightarrow> (pyexc + string) \<times> action list" where
  "createDataciteDOI_response env engine pubID response =
     (if status_code response = 201 then
        (case resp_json response of
           Inl e \<Rightarrow> (Inl e, [])
         | Inr doi_data \<Rightarrow>
             (case subscript doi_data ''data'' of
                Inl e \<Rightarrow> (Inl e, [])
              | Inr d1 \<Rightarrow>
                  (case subscript d1 ''attributes'' of
                     Inl e \<Rightarrow> (Inl e, [])
                   | Inr d2 \<Rightarrow>
                       (case subscript d2 ''doi'' of
                          Inl e \<Rightarrow> (Inl e, [])
                        | Inr doiDC \<Rightarrow>
                            (case createDataciteDOI_try env engine pubID doiDC of
                               (Inl e, tr) \<Rightarrow> (Inr (''An error occurred: '' @ exc_str e), tr)
                             | (Inr summary, tr) \<Rightarrow> (Inr summary, tr))))))
      else
        (Inr (''\<newline>DOI creation failed for '' @ pystr pubID @ ''.\<newline>'' @ [CHR 0x09] @
              ''Response code: '' @ str_int (status_code response) @
              '', Response body: '' @ resp_text response @ ''\<newline>'' @ [CHR 0x09] @
              ''If file has been created, manually upload the DataCiteXML from N:'' @ [CHR 0x5C] @
              ''PublishedDataLibrary'' @ [CHR 0x5C] @ ''dataciteXML\<newline>''), []))"

text \<open>
  The whole function (lines 190 to 238). Line 194 calls the Encoder with one positional
  argument, the joined path.
\<close>

definition createDataciteDOI :: "env \<Rightarrow> string \<Rightarrow> engine \<Rightarrow> pyval \<Rightarrow> (pyexc + string) \<times> action list" where
  "createDataciteDOI env destination_folder engine pubID =
     (let xml_file_path = path_join env (normpath env destination_folder) (''DC'' @ pystr pubID @ ''.xml'');
          doi = getDOIstring env
      in (case call_encode_xml_to_base64 env [PStr xml_file_path] of
            (Inl e, tr) \<Rightarrow> (Inl e, tr)
          | (Inr encodedXML, tr) \<Rightarrow>
              (let api_url = ''https://api.datacite.org/dois'';
                   headers = [(''Content-Type'', ''application/vnd.api+json''),
                              (''Authorization'', ''Basic '' @ credential env)];
                   metadata = JObj [(''data'', JObj [(''type'', JStr ''dois''),
                                (''attributes'', JObj [(''event'', JStr ''hide''), (''doi'', JStr doi),
                                   (''xml'', (case encodedXML of None \<Rightarrow> JNull | Some x \<Rightarrow> JStr x))])])]
               in (case requests_post env api_url headers metadata of
                     Inl e \<Rightarrow> (Inl e, tr)
                   | Inr response \<Rightarrow>
                       (case createDataciteDOI_response env engine pubID response of
                          (r, tr') \<Rightarrow> (r, tr @ [HttpPost api_url headers metadata] @ tr'))))))"

section \<open>Notions the properties are stated with\<close>

text \<open>The update statements in a trace.\<close>

fun is_execute :: "action \<Rightarrow> bool" where
  "is_execute (SqlExecute stmt ps) = True"
| "is_execute a = False"

fun is_post :: "action \<Rightarrow> bool" where
  "is_post (HttpPost url hs body) = True"
| "is_post a = False"

fun is_write :: "action \<Rightarrow> bool" where
  "is_write (FileWrite path root) = True"
| "is_write a = False"

text \<open>
  The field \<^verbatim>\<open>data.attributes.doi\<close> of a decoded JSON document, as the interface of the
  registration service describes it: present when the document is an object whose
  \<^verbatim>\<open>data\<close> is an object whose \<^verbatim>\<open>attributes\<close> is an object with a key \<^verbatim>\<open>doi\<close>.
\<close>

definition doi_field :: "json \<Rightarrow> json option" where
  "doi_field j =
     (case j of
        JObj kvs \<Rightarrow>
          (case map_of kvs ''data'' of
             Some (JObj d) \<Rightarrow>
               (case map_of d ''attributes'' of
                  Some (JObj a) \<Rightarrow> map_of a ''doi''
                | _ \<Rightarrow> None)
           | _ \<Rightarrow> None)
      | _ \<Rightarrow> None)"

text \<open>The three conditions of the Scanner's \<^verbatim>\<open>WHERE\<close> clause on a record.\<close>

definition eligible :: "publication \<Rightarrow> bool" where
  "eligible pub = (PUBLISHED pub = Some 1 \<and> DOI_PUBLICATION_DATE pub = None \<and> ID pub \<noteq> 12551)"

subsection \<open>A concrete world for the examples\<close>

definition created_body :: json where
  "created_body = JObj [(''data'', JObj [(''attributes'', JObj [(''doi'', JStr ''10.20393/abc'')])])]"

definition created_response :: response where
  "created_response = \<lparr>status_code = 201, resp_text = ''{}'', resp_json = Inr created_body\<rparr>"


definition created_without_doi :: response where
  "created_without_doi =
     \<lparr>status_code = 201, resp_text = ''{}'', resp_json = Inr (JObj [(''data'', JObj [])])\<rparr>"

definition alias_page :: response where
  "alias_page =
     \<lparr>status_code = 200, resp_text = ''<html> <div class=\"para\">10/abcde</div> </html>\<newline>'',
      resp_json = Inl (OtherException ''JSONDecodeError'' ''Expecting value'')\<rparr>"

definition demo_env :: env where
  "demo_env =
     \<lparr>normpath = (\<lambda>p. p),
      path_join = (\<lambda>a b. a @ ''/'' @ b),
      uuid4 = ''123e4567-e89b-42d3-a456-426614174000'',
      open_rb = (\<lambda>p. if p = ''out/DC7.xml'' then Inr [0x3C, 0x61, 0x2F, 0x3E, 0x0A]
                      else Inl (FileNotFoundError ''No such file or directory'')),
      requests_get = (\<lambda>url. Inr alias_page),
      requests_post = (\<lambda>url hs body. Inr created_response),
      fromstring = (\<lambda>x. case x of None \<Rightarrow> Inl (TypeError ''a bytes-like object is required'')
                               | Some s \<Rightarrow> Inr \<lparr>tag = ''resource'', attrib = [], content = s\<rparr>),
      tree_write = (\<lambda>p root. None),
      repr_json = (\<lambda>j. ''None''),
      credential = ''token''\<rparr>"


definition demo_tables :: database where
  "demo_tables =
     \<lparr>PUBLICATION =
        [\<lparr>ID = 1, PUBLISHED = Some 1, DOI_PUBLICATION_DATE = None\<rparr>,
         \<lparr>ID = 2, PUBLISHED = Some 1, DOI_PUBLICATION_DATE = Some ''2023-10-24''\<rparr>,
         \<lparr>ID = 3, PUBLISHED = Some 0, DOI_PUBLICATION_DATE = None\<rparr>,
         \<lparr>ID = 4, PUBLISHED = Some 1, DOI_PUBLICATION_DATE = None\<rparr>],
      DATASET =
        [\<lparr>PUBLICATION_ID = Some 1\<rparr>, \<lparr>PUBLICATION_ID = Some 2\<rparr>, \<lparr>PUBLICATION_ID = Some 3\<rparr>]\<rparr>"

definition failing_engine :: engine where
  "failing_engine =
     \<lparr>connect_error = Some (OtherException ''OperationalError'' ''login failed''),
      tables = demo_tables,
      select_xml = (\<lambda>q. Inr []),
      execute_update = (\<lambda>stmt ps. Inr 0)\<rparr>"


definition demo_engine :: engine where
  "demo_engine =
     \<lparr>connect_error = None,
      tables = demo_tables,
      select_xml = (\<lambda>q. Inr [Some ''<resource/>'']),
      execute_update = (\<lambda>stmt ps. Inr 1)\<rparr>"

text \<open>
  The delimiters of the alias page, and a text that contains the pattern: the marker and,
  later, the closing tag.
\<close>

definition div_open :: string where
  "div_open = ''<div class=\"para\">''"

definition para_marker :: string where
  "para_marker = div_open @ ''10/''"

definition div_close :: string where
  "div_close = ''</div>''"

definition has_pattern :: "string \<Rightarrow> bool" where
  "has_pattern t = (\<exists>pre a post. t = pre @ para_marker @ a @ div_close @ post)"

text \<open>
  Lines 161 to 170 of \<^verbatim>\<open>get_short_doi\<close> as a function of the stripped body, as they
  stand in its definition above; \<open>get_short_doi_eq\<close> below relates the two.
\<close>

definition alias_of_body :: "string \<Rightarrow> alias_result" where
  "alias_of_body short_doi =
     (let start_index = find short_doi ''<div class=\"para\">10/'' 0;
          end_index = find short_doi ''</div>'' start_index
      in if start_index \<noteq> - 1 \<and> end_index \<noteq> - 1
         then AliasStr (strip (slice short_doi
                            (start_index + int (length ''<div class=\"para\">'')) end_index))
         else AliasNone)"

definition not_found_response :: response where
  "not_found_response =
     \<lparr>status_code = 404, resp_text = ''Not Found'',
      resp_json = Inl (OtherException ''JSONDecodeError'' ''Expecting value'')\<rparr>"

definition plain_page :: response where
  "plain_page =
     \<lparr>status_code = 200, resp_text = ''<html><div>no alias</div></html>'',
      resp_json = Inl (OtherException ''JSONDecodeError'' ''Expecting value'')\<rparr>"

definition not_found_env :: env where
  "not_found_env = demo_env\<lparr>requests_get := (\<lambda>url. Inr not_found_response)\<rparr>"

definition plain_env :: env where
  "plain_env = demo_env\<lparr>requests_get := (\<lambda>url. Inr plain_page)\<rparr>"

section \<open>Properties of the Scanner\<close>

lemma foldl_append_nth: "foldl (\<lambda>acc i. acc @ [f i]) a xs = a @ map f xs"
  by (induction xs arbitrary: a) auto

lemma scanner_loop: "foldl (\<lambda>acc i. acc @ [df ! i]) pubIDs [0..<length df] = pubIDs @ df"
  by (simp add: foldl_append_nth map_nth)

lemma select_matched:
  "concat (map select_PubID (filter where_clause (map (\<lambda>pub. (Some pub, ds)) ms))) =
   map ID (filter eligible ms)"
  by (induction ms) (auto simp: eligible_def)

lemma select_joined_rows:
  "concat (map select_PubID (filter where_clause
     (case filter (\<lambda>pub. PUBLICATION_ID ds = Some (ID pub)) pubs of
        [] \<Rightarrow> [(None, ds)]
      | ms \<Rightarrow> map (\<lambda>pub. (Some pub, ds)) ms))) =
   map ID (filter (\<lambda>pub. PUBLICATION_ID ds = Some (ID pub) \<and> eligible pub) pubs)"
proof (cases "filter (\<lambda>pub. PUBLICATION_ID ds = Some (ID pub)) pubs")
  case Nil
  then have "filter (\<lambda>pub. PUBLICATION_ID ds = Some (ID pub) \<and> eligible pub) pubs = []"
    by (auto simp: filter_empty_conv)
  with Nil show ?thesis by simp
next
  case (Cons m ms)
  have "filter (\<lambda>pub. PUBLICATION_ID ds = Some (ID pub) \<and> eligible pub) pubs =
        filter eligible (filter (\<lambda>pub. PUBLICATION_ID ds = Some (ID pub)) pubs)"
    by (simp add: conj_commute)
  then show ?thesis
    using select_matched[of ds "m # ms"] unfolding Cons by simp
qed

lemma doi_check_query_rows:
  "concat (map select_PubID (filter where_clause (concat (map (\<lambda>ds.
       (case filter (\<lambda>pub. PUBLICATION_ID ds = Some (ID pub)) pubs of
          [] \<Rightarrow> [(None, ds)]
        | ms \<Rightarrow> map (\<lambda>pub. (Some pub, ds)) ms)) dss)))) =
   concat (map (\<lambda>ds. map ID (filter (\<lambda>pub. PUBLICATION_ID ds = Some (ID pub) \<and> eligible pub) pubs)) dss)"
proof (induction dss)
  case Nil
  show ?case by simp
next
  case (Cons ds dss)
  show ?case
    using Cons.IH select_joined_rows[of ds pubs] by simp
qed

text \<open>
  The result of the query, row by row: for each \<^verbatim>\<open>DATASET\<close> row in turn, the identifiers
  of the eligible records it references.
\<close>

lemma doi_check_query_eq:
  "doi_check_query d =
   concat (map (\<lambda>ds. map ID (filter (\<lambda>pub. PUBLICATION_ID ds = Some (ID pub) \<and> eligible pub) (PUBLICATION d)))
     (DATASET d))"
  unfolding doi_check_query_def right_join_def by (rule doi_check_query_rows)

lemma set_doi_check_query:
  "set (doi_check_query d) =
     {ID pub | pub. pub \<in> set (PUBLICATION d) \<and> eligible pub \<and>
        (\<exists>ds \<in> set (DATASET d). PUBLICATION_ID ds = Some (ID pub))}"
  unfolding doi_check_query_eq by auto

lemma demo_scan: "fst (dois_required_check demo_engine pubIDs) = pubIDs @ [1]"
  by (simp add: dois_required_check_def read_sql_query_def demo_engine_def demo_tables_def
        doi_check_query_def right_join_def)

text \<open>
  Claim C5, as the code has it. The Scanner appends to the accumulator the identifiers of
  the records that are published, have no issuance date, are not record 12551 and are
  referenced by at least one \<^verbatim>\<open>DATASET\<close> row, and of no other record. When the query
  raises, the accumulator is unchanged.
\<close>

theorem dois_required_check_appends:
  "(connect_error engine = None \<longrightarrow>
      (\<exists>new. fst (dois_required_check engine pubIDs) = pubIDs @ new \<and>
         set new = {ID pub | pub. pub \<in> set (PUBLICATION (tables engine)) \<and> eligible pub \<and>
                      (\<exists>ds \<in> set (DATASET (tables engine)). PUBLICATION_ID ds = Some (ID pub))})) \<and>
   (connect_error engine \<noteq> None \<longrightarrow> fst (dois_required_check engine pubIDs) = pubIDs)"
  by (auto simp: dois_required_check_def read_sql_query_def scanner_loop set_doi_check_query
           simp del: foldl_append split: option.splits)

theorem dois_required_check_appends_witness:
  "connect_error demo_engine = None \<and>
   (\<exists>new. fst (dois_required_check demo_engine [9]) = [9] @ new \<and>
      set new = {ID pub | pub. pub \<in> set (PUBLICATION (tables demo_engine)) \<and> eligible pub \<and>
                   (\<exists>ds \<in> set (DATASET (tables demo_engine)). PUBLICATION_ID ds = Some (ID pub))}) \<and>
   fst (dois_required_check demo_engine [9]) = [9, 1] \<and>
   connect_error failing_engine \<noteq> None \<and>
   fst (dois_required_check failing_engine [9]) = [9]"
proof -
  have a: "connect_error demo_engine = None" by (simp add: demo_engine_def)
  have b: "connect_error failing_engine \<noteq> None" by (simp add: failing_engine_def)
  show ?thesis
    using a b dois_required_check_appends[of demo_engine "[9]"]
      dois_required_check_appends[of failing_engine "[9]"] demo_scan[of "[9]"]
    by simp
qed

text \<open>
  Claim C5 as stated fails: record 4 is published, has no issuance date and is not the
  excluded record, but no \<^verbatim>\<open>DATASET\<close> row references it, and the Scanner does not
  append it.
\<close>

theorem dois_required_check_skips_record_without_dataset:
  "\<lparr>ID = 4, PUBLISHED = Some 1, DOI_PUBLICATION_DATE = None\<rparr> \<in> set (PUBLICATION (tables demo_engine)) \<and>
   eligible \<lparr>ID = 4, PUBLISHED = Some 1, DOI_PUBLICATION_DATE = None\<rparr> \<and>
   connect_error demo_engine = None \<and>
   fst (dois_required_check demo_engine []) = [1]"
  using demo_scan[of "[]"] by (simp add: demo_engine_def demo_tables_def eligible_def)

section \<open>Properties of the Exporter\<close>

text \<open>With a string or a list as \<^verbatim>\<open>pubID\<close> every exception is caught.\<close>

lemma createXML_sized_returns:
  assumes "py_len pubID = Inr n"
  shows "fst (createXML env engine pubID destination_folder) = Inr ()"
  using assms
  by (simp add: createXML_def Let_def split: option.splits sum.splits prod.splits)

text \<open>An empty string or list: the message is printed and nothing else is done.\<close>

lemma createXML_empty:
  assumes "py_len pubID = Inr 0"
  shows "createXML env engine pubID destination_folder =
           (Inr (), [Print ''All published files have DOIs\<newline>\<newline>''])"
  using assms by (simp add: createXML_def)

text \<open>An exception on the first row, or before it, leaves no file written.\<close>

lemma createXML_rows_first_fails:
  assumes "createXML_rows env pubID destination_folder (row # result) = (Some e, tr)"
    and "filter is_write tr \<noteq> []"
  shows "\<exists>root. fromstring env row = Inr root"
  using assms by (auto simp: Let_def split: sum.splits option.splits prod.splits)

text \<open>
  Claim C6 on the code. The Scanner appends integers to \<^verbatim>\<open>pubIDs\<close>, and with an integer
  as \<^verbatim>\<open>pubID\<close> the test \<^verbatim>\<open>len(pubID) <= 0\<close> of line 71, which stands before the
  \<^verbatim>\<open>try\<close>, raises \<^verbatim>\<open>TypeError\<close>: the Exporter raises, and does nothing else.
\<close>

theorem createXML_int_raises:
  "createXML env engine (PInt i) destination_folder =
     (Inl (TypeError ''object of type 'int' has no len()''), [])"
  by (simp add: createXML_def)

section \<open>Properties of the Orchestrator\<close>

lemma subscript_chain:
  "(case subscript j ''data'' of Inl e \<Rightarrow> None | Inr d1 \<Rightarrow>
      (case subscript d1 ''attributes'' of Inl e \<Rightarrow> None | Inr d2 \<Rightarrow>
        (case subscript d2 ''doi'' of Inl e \<Rightarrow> None | Inr v \<Rightarrow> Some v))) = doi_field j"
  by (auto simp: doi_field_def split: json.splits option.splits sum.splits)


lemma get_short_doi_trace:
  "filter is_execute (snd (get_short_doi env doi)) = []"
  by (simp add: get_short_doi_def Let_def split: sum.splits)




text \<open>
  The body of the \<^verbatim>\<open>try\<close> never reaches its \<^verbatim>\<open>return\<close>: line 227 raises, in
  \<^verbatim>\<open>execute\<close> or in the \<^verbatim>\<open>%\<close> applied to its result. At most the first statement runs.
\<close>

lemma try_never_returns:
  "\<exists>e. fst (createDataciteDOI_try env engine pubID doiDC) = Inl e"
proof (cases "get_short_doi env doiDC")
  case (Pair r tr)
  then show ?thesis
    by (cases r)
      (auto simp: createDataciteDOI_try_def result_mod_def Let_def split: sum.splits option.splits)
qed

lemma try_executes_at_most_one:
  "length (filter is_execute (snd (createDataciteDOI_try env engine pubID doiDC))) \<le> 1"
proof (cases "get_short_doi env doiDC")
  case (Pair r tr)
  from Pair get_short_doi_trace[of env doiDC] have "filter is_execute tr = []" by simp
  with Pair show ?thesis
    by (cases r)
      (auto simp: createDataciteDOI_try_def result_mod_def Let_def split: sum.splits option.splits)
qed

lemma demo_alias:
  "get_short_doi demo_env (JStr ''10.20393/abc'') =
     (Inr (AliasStr ''10/abcde''), [HttpGet ''http://shortdoi.org/10.20393/abc''])"
  by (simp add: get_short_doi_def demo_env_def alias_page_def format_json_def strip_def
        isspace_def find_def slice_def Let_def)



text \<open>
  Claim C1 on the code, at a registration answered with 201 whose alias is resolved
  (\<^verbatim>\<open>10/abcde\<close>) and a store that accepts every statement. One statement is executed,
  not two; its parameters are the literal \<^verbatim>\<open>%s\<close>, not the registered identifier, the
  date, the alias and the record id; and the function returns the text of a caught
  \<^verbatim>\<open>TypeError\<close>, not the summary of the row counts.
\<close>

theorem createDataciteDOI_response_created_run:
  "createDataciteDOI_response demo_env demo_engine (PInt 7) created_response =
     (Inr (''An error occurred: unsupported operand type(s) for %: 'CursorResult' and '' @ squote ''tuple''),
      [HttpGet ''http://shortdoi.org/10.20393/abc'', SqlConnect,
       SqlExecute update_publication
         [(''new_value1'', PStr ''%s''), (''new_value2'', PStr ''%s''),
          (''new_value3'', PStr ''%s''), (''target_id'', PStr ''%s'')]])"
  by (simp add: createDataciteDOI_response_def created_response_def created_body_def
        createDataciteDOI_try_def demo_alias demo_engine_def result_mod_def squote_def publication_params_def Let_def)

text \<open>
  Claim C2 on the code. Line 194 passes one positional argument to the Encoder, which
  has two parameters: the call raises \<^verbatim>\<open>TypeError\<close>, for every input, and the function
  ends there. No file is read and no request is posted.
\<close>

theorem createDataciteDOI_raises_before_post:
  "createDataciteDOI env destination_folder engine pubID =
     (Inl (TypeError (''encode_xml_to_base64() missing 1 required positional argument: '' @
        squote ''pubID'')), [])"
  by (simp add: createDataciteDOI_def Let_def)





text \<open>
  Claim C9. When the registration response is 201 and its body is not valid JSON, or is
  JSON without the field \<^verbatim>\<open>data.attributes.doi\<close>, the exception of line 218 or 219
  leaves the function, which stands before the \<^verbatim>\<open>try\<close>; nothing has been executed.
\<close>

theorem createDataciteDOI_response_bad_body_raises:
  assumes "status_code response = 201"
    and "(\<exists>e. resp_json response = Inl e) \<or> (\<exists>j. resp_json response = Inr j \<and> doi_field j = None)"
  shows "\<exists>e. createDataciteDOI_response env engine pubID response = (Inl e, [])"
  using assms subscript_chain[of "projr (resp_json response)"]
  by (auto simp: createDataciteDOI_response_def split: sum.splits)

theorem createDataciteDOI_response_bad_body_raises_witness:
  "status_code created_without_doi = 201 \<and>
   resp_json created_without_doi = Inr (JObj [(''data'', JObj [])]) \<and>
   doi_field (JObj [(''data'', JObj [])]) = None \<and>
   createDataciteDOI_response demo_env demo_engine (PInt 7) created_without_doi =
     (Inl (KeyError ''attributes''), []) \<and>
   status_code (created_response\<lparr>resp_json := Inl (OtherException ''JSONDecodeError'' ''Expecting value'')\<rparr>) = 201 \<and>
   (\<exists>e. createDataciteDOI_response demo_env demo_engine (PInt 7)
          (created_response\<lparr>resp_json := Inl (OtherException ''JSONDecodeError'' ''Expecting value'')\<rparr>) = (Inl e, []))"
proof -
  let ?r = "created_response\<lparr>resp_json := Inl (OtherException ''JSONDecodeError'' ''Expecting value'')\<rparr>"
  have s1: "status_code created_without_doi = 201"
    and j1: "resp_json created_without_doi = Inr (JObj [(''data'', JObj [])])"
    by (simp_all add: created_without_doi_def)
  have d1: "doi_field (JObj [(''data'', JObj [])]) = None" by (simp add: doi_field_def)
  have s2: "status_code ?r = 201" by (simp add: created_response_def)
  have h1: "(\<exists>e. resp_json created_without_doi = Inl e) \<or>
            (\<exists>j. resp_json created_without_doi = Inr j \<and> doi_field j = None)"
    using j1 d1 by simp
  have h2: "(\<exists>e. resp_json ?r = Inl e) \<or> (\<exists>j. resp_json ?r = Inr j \<and> doi_field j = None)"
    by simp
  have v: "createDataciteDOI_response demo_env demo_engine (PInt 7) created_without_doi =
             (Inl (KeyError ''attributes''), [])"
    using createDataciteDOI_response_bad_body_raises[OF s1 h1, of demo_env demo_engine "PInt 7"]
    by (simp add: createDataciteDOI_response_def created_without_doi_def)
  show ?thesis
    using s1 j1 d1 s2 v
      createDataciteDOI_response_bad_body_raises[OF s2 h2, of demo_env demo_engine "PInt 7"]
    by simp
qed

section \<open>Properties of the Alias Resolver\<close>

subsection \<open>What \<open>find\<close> returns\<close>

lemma find_at_found:
  "find_at sub s i \<noteq> - 1 \<Longrightarrow>
     \<exists>k\<le>length s. find_at sub s i = int (i + k) \<and> prefix sub (drop k s) \<and>
        (\<forall>j<k. \<not> prefix sub (drop j s))"
proof (induction s arbitrary: i)
  case Nil
  then show ?case by (auto split: if_splits)
next
  case (Cons c cs)
  show ?case
  proof (cases "prefix sub (c # cs)")
    case True
    then show ?thesis by (intro exI[of _ 0]) simp
  next
    case False
    with Cons.prems have "find_at sub cs (Suc i) \<noteq> - 1" by simp
    from Cons.IH[OF this] obtain k where k: "k \<le> length cs"
      "find_at sub cs (Suc i) = int (Suc i + k)" "prefix sub (drop k cs)"
      "\<forall>j<k. \<not> prefix sub (drop j cs)" by blast
    have "\<forall>j<Suc k. \<not> prefix sub (drop j (c # cs))"
    proof (intro allI impI)
      fix j assume "j < Suc k"
      then show "\<not> prefix sub (drop j (c # cs))"
        using False k(4) by (cases j) auto
    qed
    with k False show ?thesis by (intro exI[of _ "Suc k"]) simp
  qed
qed

lemma find_at_none:
  "find_at sub s i = - 1 \<Longrightarrow> k \<le> length s \<Longrightarrow> \<not> prefix sub (drop k s)"
proof (induction s arbitrary: i k)
  case Nil
  then show ?case by (auto split: if_splits)
next
  case (Cons c cs)
  from Cons.prems(1) have np: "\<not> prefix sub (c # cs)" and r: "find_at sub cs (Suc i) = - 1"
    by (auto split: if_splits)
  show ?case
  proof (cases k)
    case 0
    with np show ?thesis by simp
  next
    case (Suc k')
    with Cons.prems(2) have "k' \<le> length cs" by simp
    from Cons.IH[OF r this] Suc show ?thesis by simp
  qed
qed

lemma find_found:
  assumes "0 \<le> start" "find s sub start \<noteq> - 1"
  shows "\<exists>k. find s sub start = int k \<and> nat start \<le> k \<and> k \<le> length s \<and> prefix sub (drop k s) \<and>
           (\<forall>j. nat start \<le> j \<and> j < k \<longrightarrow> \<not> prefix sub (drop j s))"
proof -
  from assms have le: "start \<le> int (length s)"
    by (auto simp: find_def Let_def split: if_splits)
  with assms have eq: "find s sub start = find_at sub (drop (nat start) s) (nat start)"
    by (simp add: find_def Let_def)
  with assms(2) have "find_at sub (drop (nat start) s) (nat start) \<noteq> - 1" by simp
  from find_at_found[OF this] obtain k where k: "k \<le> length (drop (nat start) s)"
    "find_at sub (drop (nat start) s) (nat start) = int (nat start + k)"
    "prefix sub (drop k (drop (nat start) s))"
    "\<forall>j<k. \<not> prefix sub (drop j (drop (nat start) s))" by blast
  have "\<forall>j. nat start \<le> j \<and> j < nat start + k \<longrightarrow> \<not> prefix sub (drop j s)"
  proof (intro allI impI)
    fix j assume j: "nat start \<le> j \<and> j < nat start + k"
    then have "j - nat start < k" by arith
    with k(4) have "\<not> prefix sub (drop (j - nat start) (drop (nat start) s))" by blast
    moreover from j have "j - nat start + nat start = j" by arith
    ultimately show "\<not> prefix sub (drop j s)" by simp
  qed
  moreover from k(3) have "prefix sub (drop (nat start + k) s)" by (simp add: add.commute)
  moreover from k(1) le assms(1) have "nat start + k \<le> length s" by simp
  ultimately show ?thesis using eq k(2) by (intro exI[of _ "nat start + k"]) simp
qed

lemma find_none:
  assumes "0 \<le> start" "find s sub start = - 1" "nat start \<le> k" "k \<le> length s"
  shows "\<not> prefix sub (drop k s)"
proof -
  from assms have le: "start \<le> int (length s)" by simp
  with assms have eq: "find_at sub (drop (nat start) s) (nat start) = - 1"
    by (simp add: find_def Let_def)
  from assms have "k - nat start \<le> length (drop (nat start) s)" by simp
  from find_at_none[OF eq this] assms(3) show ?thesis by simp
qed

subsection \<open>The marker, the closing tag and \<open>strip\<close>\<close>

lemma prefix_drop_nth:
  assumes "prefix (c # cs) (drop d xs)"
  shows "d < length xs \<and> xs ! d = c"
proof -
  from assms obtain zs where z: "drop d xs = c # cs @ zs" by (auto simp: prefix_def)
  then have d: "d < length xs" by (cases "d < length xs") auto
  from z have "hd (drop d xs) = c" by simp
  with d show ?thesis by (simp add: hd_drop_conv_nth)
qed

lemma lt_only_first: "d < length para_marker \<Longrightarrow> para_marker ! d = CHR ''<'' \<Longrightarrow> d = 0"
proof (rule ccontr)
  assume d: "d < length para_marker" and c: "para_marker ! d = CHR ''<''" and "d \<noteq> 0"
  then obtain d' where d': "d = Suc d'" by (cases d) auto
  with d have "tl para_marker ! d' \<in> set (tl para_marker)"
    by (intro nth_mem) (simp add: para_marker_def div_open_def)
  moreover from d' have "tl para_marker ! d' = para_marker ! d"
    by (simp add: para_marker_def div_open_def)
  ultimately show False using c by (simp add: para_marker_def div_open_def)
qed

lemma close_after_marker:
  assumes m: "prefix para_marker (drop i t)" and c: "prefix div_close (drop j t)" and ij: "i \<le> j"
  shows "i + 21 \<le> j"
proof (rule ccontr)
  assume "\<not> i + 21 \<le> j"
  with ij obtain d where d: "j = i + d" "d < 21" by (metis le_Suc_ex not_le nat_add_left_cancel_less)
  from m obtain rest where rest: "drop i t = para_marker @ rest" by (auto simp: prefix_def)
  have "drop j t = drop d (drop i t)" using d by (simp add: add.commute)
  with c rest have p: "prefix div_close (drop d (para_marker @ rest))" by simp
  then have "(para_marker @ rest) ! d = CHR ''<''"
    using prefix_drop_nth[of "CHR ''<''" "''/div>''" d "para_marker @ rest"] by (simp add: div_close_def)
  moreover have "d < length para_marker" using d by (simp add: para_marker_def div_open_def)
  ultimately have "d = 0" using lt_only_first by (simp add: nth_append)
  with p show False by (simp add: para_marker_def div_open_def div_close_def)
qed

lemma dropWhile_append_nonspace:
  "zs \<noteq> [] \<Longrightarrow> \<not> isspace (hd zs) \<Longrightarrow> dropWhile isspace (ys @ zs) = dropWhile isspace ys @ zs"
  by (cases zs) (auto simp: dropWhile_append)

lemma strip_alias: "strip (''10/'' @ x) = ''10/'' @ rev (dropWhile isspace (rev x))"
proof -
  have n: "\<not> isspace (CHR ''1'')" "\<not> isspace (CHR ''/'')" by (simp_all add: isspace_def)
  have "dropWhile isspace (rev (''10/'' @ x)) = dropWhile isspace (rev x) @ ''/01''"
    using dropWhile_append_nonspace[of "''/01''" "rev x"] n by simp
  then show ?thesis using n by (simp add: strip_def)
qed

lemma strip_alias_prefix: "prefix ''10/'' (strip (''10/'' @ x))"
  unfolding strip_alias by simp

lemma slice_nonneg:
  "a \<le> b \<Longrightarrow> b \<le> length s \<Longrightarrow> slice s (int a) (int b) = take (b - a) (drop a s)"
  by (simp add: slice_def Let_def min_def nat_diff_distrib')

lemma alias_of_body_cases:
  "alias_of_body t = AliasNone \<and> \<not> has_pattern t \<or>
   (\<exists>i j. i + 21 \<le> j \<and> j \<le> length t \<and> prefix para_marker (drop i t) \<and> prefix div_close (drop j t) \<and>
      (\<forall>k<i. \<not> prefix para_marker (drop k t)) \<and>
      (\<forall>k. i \<le> k \<and> k < j \<longrightarrow> \<not> prefix div_close (drop k t)) \<and>
      alias_of_body t = AliasStr (strip (take (j - (i + 18)) (drop (i + 18) t))))"
proof (cases "find t para_marker 0 = - 1")
  case True
  have "\<not> has_pattern t"
  proof
    assume "has_pattern t"
    then obtain pre a post where "t = pre @ para_marker @ a @ div_close @ post"
      by (auto simp: has_pattern_def)
    then have "prefix para_marker (drop (length pre) t)" "length pre \<le> length t" by simp_all
    with find_none[OF _ True, of "length pre"] show False by simp
  qed
  moreover from True have "alias_of_body t = AliasNone"
    by (simp add: alias_of_body_def para_marker_def div_open_def Let_def)
  ultimately show ?thesis by simp
next
  case False
  from find_found[OF _ False] obtain i where i: "find t para_marker 0 = int i" "i \<le> length t"
    "prefix para_marker (drop i t)" "\<forall>k<i. \<not> prefix para_marker (drop k t)" by auto
  show ?thesis
  proof (cases "find t div_close (int i) = - 1")
    case True
    have "\<not> has_pattern t"
    proof
      assume "has_pattern t"
      then obtain pre a post where d: "t = pre @ para_marker @ a @ div_close @ post"
        by (auto simp: has_pattern_def)
      then have "prefix para_marker (drop (length pre) t)" by simp
      with i(4) have "i \<le> length pre" by (meson not_le)
      moreover have "prefix div_close (drop (length (pre @ para_marker @ a)) t)"
      proof -
        from d have "t = (pre @ para_marker @ a) @ div_close @ post" by simp
        then have "drop (length (pre @ para_marker @ a)) t = div_close @ post"
          by (metis append_eq_conv_conj)
        then show ?thesis by simp
      qed
      moreover from d have "length (pre @ para_marker @ a) \<le> length t" by simp
      ultimately show False
        using find_none[OF _ True, of "length (pre @ para_marker @ a)"] by simp
    qed
    moreover from True i(1) have "alias_of_body t = AliasNone"
      by (simp add: alias_of_body_def para_marker_def div_open_def div_close_def Let_def)
    ultimately show ?thesis by simp
  next
    case F2: False
    from find_found[OF _ F2] obtain j where j: "find t div_close (int i) = int j" "i \<le> j"
      "j \<le> length t" "prefix div_close (drop j t)"
      "\<forall>k. i \<le> k \<and> k < j \<longrightarrow> \<not> prefix div_close (drop k t)" by auto
    from close_after_marker[OF i(3) j(4) j(2)] have ij: "i + 21 \<le> j" .
    have "int i + 18 = int (i + 18)" by simp
    then have "slice t (int i + 18) (int j) = take (j - (i + 18)) (drop (i + 18) t)"
      using slice_nonneg[of "i + 18" j t] ij j(3) by simp
    with i(1) j(1) have "alias_of_body t = AliasStr (strip (take (j - (i + 18)) (drop (i + 18) t)))"
      by (simp add: alias_of_body_def para_marker_def div_open_def div_close_def Let_def)
    with i j ij show ?thesis by blast
  qed
qed

lemma get_short_doi_eq:
  assumes "requests_get env (''http://shortdoi.org/'' @ format_json env doi) = Inr response"
  shows "fst (get_short_doi env doi) =
           Inr (if status_code response = 200 then alias_of_body (strip (resp_text response))
                else AliasTuple (status_code response) (resp_text response))"
  using assms by (simp add: get_short_doi_def alias_of_body_def Let_def)

lemma get_short_doi_raises:
  assumes "requests_get env (''http://shortdoi.org/'' @ format_json env doi) = Inl e"
  shows "fst (get_short_doi env doi) = Inl e"
  using assms by (simp add: get_short_doi_def Let_def)

lemma alias_of_body_prefix:
  assumes "alias_of_body t = AliasStr a"
  shows "prefix ''10/'' a"
proof -
  from alias_of_body_cases[of t] assms obtain i j where ij: "i + 21 \<le> j"
    and m: "prefix para_marker (drop i t)"
    and a: "a = strip (take (j - (i + 18)) (drop (i + 18) t))" by auto
  from m obtain rest where "drop i t = para_marker @ rest" by (auto simp: prefix_def)
  then have "drop 18 (drop i t) = ''10/'' @ rest" by (simp add: para_marker_def div_open_def)
  then have "drop (i + 18) t = ''10/'' @ rest" by (simp add: add.commute)
  moreover from ij have "j - (i + 18) = Suc (Suc (Suc (j - (i + 21))))" by arith
  then obtain n where "j - (i + 18) = Suc (Suc (Suc n))" ..
  ultimately have "take (j - (i + 18)) (drop (i + 18) t) = ''10/'' @ take n rest" by simp
  with a show ?thesis using strip_alias_prefix by simp
qed


lemma strip_pattern:
  assumes "X \<noteq> []" "\<not> isspace (hd X)" "\<not> isspace (last X)"
  shows "strip (pre @ X @ post) = dropWhile isspace pre @ X @ rev (dropWhile isspace (rev post))"
proof -
  have 1: "dropWhile isspace (pre @ X @ post) = dropWhile isspace pre @ X @ post"
    using dropWhile_append_nonspace[of "X @ post" pre] assms by simp
  have "dropWhile isspace (rev post @ rev X @ rev (dropWhile isspace pre)) =
        dropWhile isspace (rev post) @ rev X @ rev (dropWhile isspace pre)"
    using dropWhile_append_nonspace[of "rev X @ rev (dropWhile isspace pre)" "rev post"] assms
    by (simp add: hd_rev)
  with 1 show ?thesis by (simp add: strip_def)
qed

lemma strip_inside: "\<exists>w1 w2. s = w1 @ strip s @ w2"
proof -
  let ?u = "dropWhile isspace s"
  have "rev (rev ?u) = rev (takeWhile isspace (rev ?u) @ dropWhile isspace (rev ?u))"
    by (simp only: takeWhile_dropWhile_id)
  then have "?u = rev (dropWhile isspace (rev ?u)) @ rev (takeWhile isspace (rev ?u))"
    by (simp only: rev_append rev_rev_ident)
  then have u: "?u = strip s @ rev (takeWhile isspace (rev ?u))" by (simp only: strip_def)
  have "s = takeWhile isspace s @ ?u" by simp
  with u have "s = takeWhile isspace s @ strip s @ rev (takeWhile isspace (rev ?u))" by simp
  then show ?thesis by blast
qed

lemma has_pattern_strip: "has_pattern (strip s) = has_pattern s"
proof
  assume "has_pattern (strip s)"
  then obtain pre a post where p: "strip s = pre @ para_marker @ a @ div_close @ post"
    by (auto simp: has_pattern_def)
  from strip_inside[of s] obtain w1 w2 where "s = w1 @ strip s @ w2" by blast
  with p have "s = (w1 @ pre) @ para_marker @ a @ div_close @ (post @ w2)" by simp
  then show "has_pattern s" unfolding has_pattern_def by blast
next
  assume "has_pattern s"
  then obtain pre a post where p: "s = pre @ (para_marker @ a @ div_close) @ post"
    by (auto simp: has_pattern_def)
  have "strip (pre @ (para_marker @ a @ div_close) @ post) =
        dropWhile isspace pre @ (para_marker @ a @ div_close) @ rev (dropWhile isspace (rev post))"
    by (rule strip_pattern) (simp_all add: para_marker_def div_open_def div_close_def isspace_def)
  with p show "has_pattern (strip s)" unfolding has_pattern_def by (metis append.assoc)
qed

lemma alias_of_body_present:
  assumes "has_pattern t"
  shows "\<exists>a. alias_of_body t = AliasStr a"
  using alias_of_body_cases[of t] assms by auto

lemma alias_of_body_absent:
  assumes "\<not> has_pattern t"
  shows "alias_of_body t = AliasNone"
proof -
  {
    fix i j assume ij: "i + 21 \<le> j" "j \<le> length t" and m: "prefix para_marker (drop i t)"
      and c: "prefix div_close (drop j t)"
    from m obtain r1 where r1: "drop i t = para_marker @ r1" by (auto simp: prefix_def)
    from c obtain r2 where r2: "drop j t = div_close @ r2" by (auto simp: prefix_def)
    have "drop j t = drop (j - (i + 21)) (drop 21 (drop i t))" using ij by simp
    with r1 r2 have "drop (j - (i + 21)) r1 = div_close @ r2"
      by (simp add: para_marker_def div_open_def)
    then have "r1 = take (j - (i + 21)) r1 @ div_close @ r2"
      by (metis append_take_drop_id)
    with r1 have "t = take i t @ para_marker @ take (j - (i + 21)) r1 @ div_close @ r2"
      by (metis append_take_drop_id)
    then have "has_pattern t" unfolding has_pattern_def by blast
  }
  with assms alias_of_body_cases[of t] show ?thesis by blast
qed

lemma alias_of_body_between:
  assumes t: "t = pre @ div_open @ a @ div_close @ post"
    and a10: "prefix ''10/'' a"
    and first_open: "\<forall>k<length pre. \<not> prefix para_marker (drop k t)"
    and first_close: "\<forall>k<length a. \<not> prefix div_close (drop k (a @ div_close @ post))"
  shows "alias_of_body t = AliasStr (strip a)"
proof -
  from a10 obtain a' where a': "a = ''10/'' @ a'" by (auto simp: prefix_def)
  with t have tp: "t = pre @ para_marker @ a' @ div_close @ post" by (simp add: para_marker_def)
  then have hp: "has_pattern t" unfolding has_pattern_def by blast
  have len_open: "length div_open = 18" by (simp add: div_open_def)
  from tp have at_pre: "prefix para_marker (drop (length pre) t)" by simp
  have dropJ: "\<And>k. drop (length pre + 18 + k) t = drop k (a @ div_close @ post)"
  proof -
    fix k
    have "drop (length pre + 18 + k) t = drop k (drop (length div_open) (drop (length pre) t))"
      by (simp add: len_open add.commute add.left_commute)
    also have "\<dots> = drop k (a @ div_close @ post)" by (simp add: t)
    finally show "drop (length pre + 18 + k) t = drop k (a @ div_close @ post)" .
  qed
  from dropJ[of "length a"] have at_close: "prefix div_close (drop (length pre + 18 + length a) t)"
    by simp
  from alias_of_body_cases[of t] hp obtain i j where ij: "i + 21 \<le> j" "j \<le> length t"
    and m: "prefix para_marker (drop i t)" and c: "prefix div_close (drop j t)"
    and mi: "\<forall>k<i. \<not> prefix para_marker (drop k t)"
    and cj: "\<forall>k. i \<le> k \<and> k < j \<longrightarrow> \<not> prefix div_close (drop k t)"
    and r: "alias_of_body t = AliasStr (strip (take (j - (i + 18)) (drop (i + 18) t)))"
    by auto
  have i: "i = length pre"
  proof -
    from mi at_pre have "\<not> length pre < i" by blast
    moreover from first_open m have "\<not> i < length pre" by blast
    ultimately show ?thesis by simp
  qed
  have j: "j = length pre + 18 + length a"
  proof -
    from cj at_close i have "\<not> length pre + 18 + length a < j" by force
    moreover have "\<not> j < length pre + 18 + length a"
    proof
      assume lt: "j < length pre + 18 + length a"
      from ij i have "j = length pre + 18 + (j - (length pre + 18))" by simp
      with c dropJ[of "j - (length pre + 18)"]
      have "prefix div_close (drop (j - (length pre + 18)) (a @ div_close @ post))" by simp
      moreover from lt have "j - (length pre + 18) < length a" using ij i by arith
      ultimately show False using first_close by blast
    qed
    ultimately show ?thesis by simp
  qed
  from dropJ[of 0] i have "drop (i + 18) t = a @ div_close @ post" by simp
  with j i have "take (j - (i + 18)) (drop (i + 18) t) = a" by simp
  with r show ?thesis by simp
qed


lemma all_less_Suc: "(\<forall>k<Suc n. P k) = (P n \<and> (\<forall>k<n. P k))"
  by (auto simp: less_Suc_eq)

lemma demo_page_stripped: "strip (resp_text alias_page) = ''<html> '' @ div_open @ ''10/abcde'' @ div_close @ '' </html>''"
  by (simp add: alias_page_def strip_def isspace_def div_open_def div_close_def)

lemma demo_page_first_open: "\<forall>k<length ''<html> ''. \<not> prefix para_marker (drop k (strip (resp_text alias_page)))"
  unfolding demo_page_stripped by (simp add: all_less_Suc div_open_def div_close_def para_marker_def)

lemma demo_page_first_close: "\<forall>k<length ''10/abcde''. \<not> prefix div_close (drop k (''10/abcde'' @ div_close @ '' </html>''))"
  by (simp add: all_less_Suc div_close_def)

lemma demo_page_has_pattern: "has_pattern (resp_text alias_page)"
  unfolding has_pattern_def
  by (rule exI[of _ "''<html> ''"], rule exI[of _ "''abcde''"], rule exI[of _ "'' </html>\<newline>''"])
     (simp add: alias_page_def para_marker_def div_open_def div_close_def)

lemma plain_page_no_pattern: "\<not> has_pattern (resp_text plain_page)"
proof
  assume "has_pattern (resp_text plain_page)"
  then have "has_pattern (strip (resp_text plain_page))" by (simp add: has_pattern_strip)
  from alias_of_body_present[OF this] obtain a where
    "alias_of_body (strip (resp_text plain_page)) = AliasStr a" ..
  then show False
    by (simp add: alias_of_body_def plain_page_def strip_def isspace_def find_def Let_def)
qed

text \<open>
  Claim C7. For the response of the alias service: with status 200 and a body that
  contains the pattern, the result is a text; it is the stripped text between the opening
  tag and the closing tag, for the first marker of the stripped body and the first closing
  tag after it. With status 200 and no pattern the result is \<^verbatim>\<open>None\<close>. With any other
  status it is the pair of the status code and the body text.
\<close>

theorem get_short_doi_result:
  assumes "requests_get env (''http://shortdoi.org/'' @ format_json env doi) = Inr response"
  shows "(status_code response = 200 \<and> has_pattern (resp_text response) \<longrightarrow>
            (\<exists>a. fst (get_short_doi env doi) = Inr (AliasStr a))) \<and>
         (status_code response = 200 \<and>
            strip (resp_text response) = pre @ div_open @ a @ div_close @ post \<and>
            prefix ''10/'' a \<and>
            (\<forall>k<length pre. \<not> prefix para_marker (drop k (strip (resp_text response)))) \<and>
            (\<forall>k<length a. \<not> prefix div_close (drop k (a @ div_close @ post))) \<longrightarrow>
            fst (get_short_doi env doi) = Inr (AliasStr (strip a))) \<and>
         (status_code response = 200 \<and> \<not> has_pattern (resp_text response) \<longrightarrow>
            fst (get_short_doi env doi) = Inr AliasNone) \<and>
         (status_code response \<noteq> 200 \<longrightarrow>
            fst (get_short_doi env doi) = Inr (AliasTuple (status_code response) (resp_text response)))"
proof (intro conjI impI)
  assume "status_code response = 200 \<and> has_pattern (resp_text response)"
  then show "\<exists>a. fst (get_short_doi env doi) = Inr (AliasStr a)"
    using alias_of_body_present[of "strip (resp_text response)"]
    by (simp add: get_short_doi_eq[OF assms] has_pattern_strip)
next
  assume h: "status_code response = 200 \<and>
            strip (resp_text response) = pre @ div_open @ a @ div_close @ post \<and>
            prefix ''10/'' a \<and>
            (\<forall>k<length pre. \<not> prefix para_marker (drop k (strip (resp_text response)))) \<and>
            (\<forall>k<length a. \<not> prefix div_close (drop k (a @ div_close @ post)))"
  then have "alias_of_body (strip (resp_text response)) = AliasStr (strip a)"
    by (intro alias_of_body_between[of _ pre a post]) blast+
  with h show "fst (get_short_doi env doi) = Inr (AliasStr (strip a))"
    by (simp add: get_short_doi_eq[OF assms])
next
  assume "status_code response = 200 \<and> \<not> has_pattern (resp_text response)"
  then show "fst (get_short_doi env doi) = Inr AliasNone"
    using alias_of_body_absent[of "strip (resp_text response)"]
    by (simp add: get_short_doi_eq[OF assms] has_pattern_strip)
next
  assume "status_code response \<noteq> 200"
  then show "fst (get_short_doi env doi) = Inr (AliasTuple (status_code response) (resp_text response))"
    by (simp add: get_short_doi_eq[OF assms])
qed

theorem get_short_doi_result_witness:
  "fst (get_short_doi demo_env (JStr ''10.20393/abc'')) = Inr (AliasStr ''10/abcde'') \<and>
   status_code alias_page = 200 \<and> has_pattern (resp_text alias_page) \<and>
   (\<exists>a. fst (get_short_doi demo_env (JStr ''10.20393/abc'')) = Inr (AliasStr a)) \<and>
   status_code plain_page = 200 \<and> \<not> has_pattern (resp_text plain_page) \<and>
   fst (get_short_doi plain_env (JStr ''10.20393/abc'')) = Inr AliasNone \<and>
   status_code not_found_response \<noteq> 200 \<and>
   fst (get_short_doi not_found_env (JStr ''10.20393/abc'')) = Inr (AliasTuple 404 ''Not Found'')"
proof -
  let ?d = "JStr ''10.20393/abc''"
  have g1: "requests_get demo_env (''http://shortdoi.org/'' @ format_json demo_env ?d) = Inr alias_page"
    by (simp add: demo_env_def)
  have g2: "requests_get plain_env (''http://shortdoi.org/'' @ format_json plain_env ?d) = Inr plain_page"
    by (simp add: plain_env_def)
  have g3: "requests_get not_found_env (''http://shortdoi.org/'' @ format_json not_found_env ?d) =
              Inr not_found_response"
    by (simp add: not_found_env_def)
  have s1: "status_code alias_page = 200" by (simp add: alias_page_def)
  have s2: "status_code plain_page = 200" by (simp add: plain_page_def)
  have s3: "status_code not_found_response \<noteq> 200" by (simp add: not_found_response_def)
  have a10: "prefix ''10/'' ''10/abcde''" by simp
  have st: "strip ''10/abcde'' = ''10/abcde''" by (simp add: strip_def isspace_def)
  note T1 = get_short_doi_result[OF g1, of "''<html> ''" "''10/abcde''" "'' </html>''"]
  note T2 = get_short_doi_result[OF g2, of "[]" "[]" "[]"]
  note T3 = get_short_doi_result[OF g3, of "[]" "[]" "[]"]
  from T1 s1 demo_page_has_pattern
  have r0: "\<exists>a. fst (get_short_doi demo_env ?d) = Inr (AliasStr a)" by blast
  from T1 s1 demo_page_stripped a10 demo_page_first_open demo_page_first_close
  have "fst (get_short_doi demo_env ?d) = Inr (AliasStr (strip ''10/abcde''))" by blast
  with st have r1: "fst (get_short_doi demo_env ?d) = Inr (AliasStr ''10/abcde'')" by simp
  from T2 s2 plain_page_no_pattern
  have r2: "fst (get_short_doi plain_env ?d) = Inr AliasNone" by blast
  from T3 s3
  have "fst (get_short_doi not_found_env ?d) =
          Inr (AliasTuple (status_code not_found_response) (resp_text not_found_response))" by blast
  then have r3: "fst (get_short_doi not_found_env ?d) = Inr (AliasTuple 404 ''Not Found'')"
    by (simp add: not_found_response_def)
  from r0 r1 r2 r3 s1 s2 s3 demo_page_has_pattern plain_page_no_pattern show ?thesis by blast
qed

text \<open>
  Claim C10. Every text that \<^verbatim>\<open>get_short_doi\<close> returns as an alias begins with
  \<^verbatim>\<open>10/\<close>: the search is for the marker with \<^verbatim>\<open>10/\<close>, the slice starts after the
  opening tag only, the closing tag cannot start inside the marker, and \<^verbatim>\<open>strip\<close>
  removes nothing before a character that is not white space.
\<close>

theorem get_short_doi_alias_prefix:
  assumes "fst (get_short_doi env doi) = Inr (AliasStr a)"
  shows "prefix ''10/'' a"
proof (cases "requests_get env (''http://shortdoi.org/'' @ format_json env doi)")
  case (Inl e)
  from get_short_doi_raises[OF this] assms show ?thesis by simp
next
  case (Inr response)
  from get_short_doi_eq[OF this] assms have "alias_of_body (strip (resp_text response)) = AliasStr a"
    by (auto split: if_splits)
  then show ?thesis by (rule alias_of_body_prefix)
qed

theorem get_short_doi_alias_prefix_witness:
  "fst (get_short_doi demo_env (JStr ''10.20393/abc'')) = Inr (AliasStr ''10/abcde'') \<and>
   prefix ''10/'' ''10/abcde''"
proof -
  have h: "fst (get_short_doi demo_env (JStr ''10.20393/abc'')) = Inr (AliasStr ''10/abcde'')"
    by (simp add: demo_alias)
  from get_short_doi_alias_prefix[OF h] h show ?thesis by blast
qed

end
